theory Spec2Isabelle
  imports Main "HOL-Library.Sublist"
begin

section \<open>Data model of \<open>license.go\<close>\<close>

text \<open>
  Go strings are byte sequences; they are modelled as \<open>string\<close> (lists of 8-bit
  characters). The identifiers are the string constants of the source.
\<close>

definition LicenseMIT :: string where "LicenseMIT = ''MIT''"
definition LicenseISC :: string where "LicenseISC = ''ISC''"
definition LicenseBSD3Clause :: string where "LicenseBSD3Clause = ''BSD-3-Clause''"
definition LicenseBSD2Clause :: string where "LicenseBSD2Clause = ''BSD-2-Clause''"
definition LicenseApache20 :: string where "LicenseApache20 = ''Apache-2.0''"
definition LicenseMPL20 :: string where "LicenseMPL20 = ''MPL-2.0''"
definition LicenseGPL20 :: string where "LicenseGPL20 = ''GPL-2.0''"
definition LicenseGPL30 :: string where "LicenseGPL30 = ''GPL-3.0''"
definition LicenseLGPL21 :: string where "LicenseLGPL21 = ''LGPL-2.1''"
definition LicenseLGPL30 :: string where "LicenseLGPL30 = ''LGPL-3.0''"
definition LicenseAGPL30 :: string where "LicenseAGPL30 = ''AGPL-3.0''"
definition LicenseCDDL10 :: string where "LicenseCDDL10 = ''CDDL-1.0''"
definition LicenseEPL10 :: string where "LicenseEPL10 = ''EPL-1.0''"
definition LicenseZlib :: string where "LicenseZlib = ''zlib''"
definition LicenseUnlicense :: string where "LicenseUnlicense = ''Unlicense''"

text \<open>
  The error values of the package, the error of a failed file-system call (with the
  operating system's message), and the run-time panic of an index out of range.
\<close>

datatype error =
    ErrNoLicenseFile
  | ErrUnrecognizedLicense
  | ErrMultipleLicenses
  | OSError string
  | PanicIndexOutOfRange

definition DefaultLicenseFiles :: "string list" where
  "DefaultLicenseFiles = [''license*'', ''licence*'', ''copying*'', ''unlicense'']"

definition KnownLicenses :: "string list" where
  "KnownLicenses =
     [LicenseMIT, LicenseISC, LicenseBSD3Clause, LicenseBSD2Clause, LicenseApache20,
      LicenseMPL20, LicenseGPL20, LicenseGPL30, LicenseLGPL21, LicenseLGPL30,
      LicenseAGPL30, LicenseCDDL10, LicenseEPL10, LicenseZlib, LicenseUnlicense]"

record License =
  Type :: string
  Text :: string
  File :: string

definition New :: "string \<Rightarrow> string \<Rightarrow> License" where
  "New licenseType licenseText = \<lparr>Type = licenseType, Text = licenseText, File = []\<rparr>"

section \<open>Recognized\<close>

text \<open>The loop of \<open>Recognized\<close> over a slice of identifiers, returning at the first hit.\<close>

fun Recognized_loop :: "string list \<Rightarrow> string \<Rightarrow> bool" where
  "Recognized_loop [] t = False"
| "Recognized_loop (license # rest) t = (if license = t then True else Recognized_loop rest t)"

definition Recognized :: "License \<Rightarrow> bool" where
  "Recognized l = Recognized_loop KnownLicenses (Type l)"

section \<open>The library calls of \<open>GuessType\<close>\<close>

text \<open>
  \<open>strings.ToLower\<close>: on ASCII text it adds \<open>'a' - 'A'\<close> to every byte between
  \<open>'A'\<close> and \<open>'Z'\<close> and keeps every other byte. The model is this byte-wise map;
  license texts with bytes beyond ASCII, where Go applies the Unicode case tables, are
  outside the model. \<open>ToUpper\<close> is the mirror image and only serves to build
  upper-cased variants of a text.
\<close>

definition lower_byte :: "char \<Rightarrow> char" where
  "lower_byte c =
     (let n = (of_char c :: nat) in if 65 \<le> n \<and> n \<le> 90 then char_of (n + 32) else c)"

definition upper_byte :: "char \<Rightarrow> char" where
  "upper_byte c =
     (let n = (of_char c :: nat) in if 97 \<le> n \<and> n \<le> 122 then char_of (n - 32) else c)"

definition ToLower :: "string \<Rightarrow> string" where
  "ToLower s = map lower_byte s"

definition ToUpper :: "string \<Rightarrow> string" where
  "ToUpper s = map upper_byte s"

text \<open>
  The character class \<open>\s\<close> of Go's regular expressions is \<open>[\t\n\f\r ]\<close>.
\<close>

definition is_space :: "char \<Rightarrow> bool" where
  "is_space c \<longleftrightarrow> c = CHR 0x09 \<or> c = CHR 0x0A \<or> c = CHR 0x0C \<or> c = CHR 0x0D \<or> c = CHR '' ''"

text \<open>
  \<open>regexp.MustCompile("(\r\n|\n)").ReplaceAllLiteralString(s, " ")\<close>: the text is read
  from the left; where a carriage return is followed by a line feed the pair is replaced
  by one space, a line feed alone is replaced by one space, and every other byte is copied.
\<close>

fun newlineRegexp_ReplaceAll :: "string \<Rightarrow> string" where
  "newlineRegexp_ReplaceAll [] = []"
| "newlineRegexp_ReplaceAll [c] = (if c = CHR 0x0A then '' '' else [c])"
| "newlineRegexp_ReplaceAll (c # d # s) =
     (if c = CHR 0x0D \<and> d = CHR 0x0A then CHR '' '' # newlineRegexp_ReplaceAll s
      else if c = CHR 0x0A then CHR '' '' # newlineRegexp_ReplaceAll (d # s)
      else c # newlineRegexp_ReplaceAll (d # s))"

text \<open>
  \<open>regexp.MustCompile("\\s{2,}").ReplaceAllLiteralString(s, " ")\<close>: the leftmost match
  starts at the first byte of class \<open>\s\<close> whose successor is of class \<open>\s\<close> too, the
  greedy repetition takes the whole run, and the run is replaced by one space. A
  whitespace byte without a whitespace neighbour is copied as it is.
\<close>

function spaceRegexp_ReplaceAll :: "string \<Rightarrow> string" where
  "spaceRegexp_ReplaceAll [] = []"
| "spaceRegexp_ReplaceAll [c] = [c]"
| "spaceRegexp_ReplaceAll (c # d # s) =
     (if is_space c \<and> is_space d then CHR '' '' # spaceRegexp_ReplaceAll (dropWhile is_space s)
      else c # spaceRegexp_ReplaceAll (d # s))"
  by pat_completeness auto
termination
  by (relation "measure length") (auto simp: le_imp_less_Suc length_dropWhile_le less_SucI)

text \<open>\<open>strings.Contains\<close>: the second string occurs in the first as a contiguous block.\<close>

fun Contains :: "string \<Rightarrow> string \<Rightarrow> bool" where
  "Contains [] substr = (substr = [])"
| "Contains (c # s) substr = (prefix substr (c # s) \<or> Contains s substr)"

definition scan :: "string \<Rightarrow> string \<Rightarrow> bool" where
  "scan text match = Contains text match"

section \<open>GuessType\<close>

text \<open>
  The method works on a pointer to the entity: the model takes the entity and returns
  the error (\<open>None\<close> for \<open>nil\<close>) together with the entity as the call leaves it.
\<close>

definition normalize_text :: "string \<Rightarrow> string" where
  "normalize_text t = spaceRegexp_ReplaceAll (newlineRegexp_ReplaceAll (ToLower t))"

definition GuessType :: "License \<Rightarrow> error option \<times> License" where
  "GuessType l =
    (let comp = ToLower (Text l);
         comp = newlineRegexp_ReplaceAll comp;
         comp = spaceRegexp_ReplaceAll comp
     in
       if scan comp ''permission is hereby granted, free of charge, to any person obtaining a copy of this software''
       then (None, l\<lparr>Type := LicenseMIT\<rparr>)
       else if scan comp ''permission to use, copy, modify, and/or distribute this software for any''
       then (None, l\<lparr>Type := LicenseISC\<rparr>)
       else if scan comp ''apache license version 2.0, january 2004'' \<or>
               scan comp ''http://www.apache.org/licenses/license-2.0''
       then (None, l\<lparr>Type := LicenseApache20\<rparr>)
       else if scan comp ''gnu general public license version 2, june 1991''
       then (None, l\<lparr>Type := LicenseGPL20\<rparr>)
       else if scan comp ''gnu general public license version 3, 29 june 2007''
       then (None, l\<lparr>Type := LicenseGPL30\<rparr>)
       else if scan comp ''gnu lesser general public license version 2.1, february 1999''
       then (None, l\<lparr>Type := LicenseLGPL21\<rparr>)
       else if scan comp ''gnu lesser general public license version 3, 29 june 2007''
       then (None, l\<lparr>Type := LicenseLGPL30\<rparr>)
       else if scan comp ''gnu affero general public license version 3, 19 november 2007''
       then (None, l\<lparr>Type := LicenseAGPL30\<rparr>)
       else if scan comp ''mozilla public license'' \<and> scan comp ''version 2.0''
       then (None, l\<lparr>Type := LicenseMPL20\<rparr>)
       else if scan comp ''redistribution and use in source and binary forms''
       then (if scan comp ''neither the name of''
             then (None, l\<lparr>Type := LicenseBSD3Clause\<rparr>)
             else (None, l\<lparr>Type := LicenseBSD2Clause\<rparr>))
       else if scan comp ''common development and distribution license (cddl) version 1.0''
       then (None, l\<lparr>Type := LicenseCDDL10\<rparr>)
       else if scan comp ''eclipse public license - v 1.0''
       then (None, l\<lparr>Type := LicenseEPL10\<rparr>)
       else if scan comp ''permission is granted to anyone to use this software for any purpose''
       then (None, l\<lparr>Type := LicenseZlib\<rparr>)
       else if scan comp ''this is free and unencumbered software released into the public domain''
       then (None, l\<lparr>Type := LicenseUnlicense\<rparr>)
       else (Some ErrUnrecognizedLicense, l))"


section \<open>File system and file-name patterns\<close>

text \<open>
  The file system the package reads through \<open>ioutil.ReadFile\<close>, \<open>ioutil.ReadDir\<close>
  and \<open>filepath.Join\<close> is a parameter of the model: a failed call yields the operating
  system's message, a successful \<open>ReadDir\<close> the names of the entries in listing order.
\<close>

record filesystem =
  fs_ReadFile :: "string \<Rightarrow> string + string"
  fs_ReadDir :: "string \<Rightarrow> string + string list"
  fs_Join :: "string \<Rightarrow> string \<Rightarrow> string"

text \<open>
  A compiled \<open>*regexp.Regexp\<close> is used through \<open>MatchString\<close> only and is modelled
  by that predicate on file names.
\<close>

type_synonym Regexp = "string \<Rightarrow> bool"

text \<open>
  \<open>regexp.MustCompile("(?i)^" + strings.Replace(license, "*", ".*", -1)).MatchString(file)\<close>
  for a \<open>license\<close> pattern made of ordinary characters and \<open>*\<close> (as all entries of
  \<open>DefaultLicenseFiles\<close> are): the match starts at the first byte of the name, an
  ordinary character matches the same character in either case, \<open>.*\<close> matches any
  number of bytes other than a line feed, and nothing anchors the end of the match.
\<close>

fun glob_MatchString :: "string \<Rightarrow> string \<Rightarrow> bool" where
  "glob_MatchString [] file = True"
| "glob_MatchString (p # ps) [] = (p = CHR ''*'' \<and> glob_MatchString ps [])"
| "glob_MatchString (p # ps) (c # cs) =
     (if p = CHR ''*''
      then glob_MatchString ps (c # cs) \<or> (c \<noteq> CHR 0x0A \<and> glob_MatchString (p # ps) cs)
      else lower_byte p = lower_byte c \<and> glob_MatchString ps cs)"

fun complileLicensePatters_loop :: "string list \<Rightarrow> Regexp list \<Rightarrow> Regexp list" where
  "complileLicensePatters_loop [] patterns = patterns"
| "complileLicensePatters_loop (license # rest) patterns =
     complileLicensePatters_loop rest (patterns @ [glob_MatchString license])"

definition complileLicensePatters :: "string list \<Rightarrow> error + Regexp list" where
  "complileLicensePatters licenses = Inr (complileLicensePatters_loop licenses [])"

text \<open>The two nested loops of \<open>matchLicenseFile\<close>, appending to \<open>out\<close>.\<close>

fun matchLicenseFile_inner :: "Regexp list \<Rightarrow> string \<Rightarrow> string list \<Rightarrow> string list" where
  "matchLicenseFile_inner [] file out = out"
| "matchLicenseFile_inner (pattern # rest) file out =
     matchLicenseFile_inner rest file (if pattern file then out @ [file] else out)"

fun matchLicenseFile_outer :: "Regexp list \<Rightarrow> string list \<Rightarrow> string list \<Rightarrow> string list" where
  "matchLicenseFile_outer patterns [] out = out"
| "matchLicenseFile_outer patterns (file # rest) out =
     matchLicenseFile_outer patterns rest (matchLicenseFile_inner patterns file out)"

definition matchLicenseFile :: "Regexp list \<Rightarrow> string list \<Rightarrow> string list" where
  "matchLicenseFile patterns files = matchLicenseFile_outer patterns files []"

definition getLicenseFile :: "Regexp list \<Rightarrow> string list \<Rightarrow> error + string list" where
  "getLicenseFile patterns files =
     (let matches = matchLicenseFile patterns files
      in if length matches = 0 then Inl ErrNoLicenseFile else Inr matches)"

section \<open>Constructors that read the file system\<close>

definition NewFromFile :: "filesystem \<Rightarrow> string \<Rightarrow> error + License" where
  "NewFromFile fs path =
     (case fs_ReadFile fs path of
        Inl msg \<Rightarrow> Inl (OSError msg)
      | Inr licenseText \<Rightarrow>
          (let l = \<lparr>Type = [], Text = licenseText, File = path\<rparr>
           in case GuessType l of
                (Some err, _) \<Rightarrow> Inl err
              | (None, l') \<Rightarrow> Inr l'))"

definition readDirectory :: "filesystem \<Rightarrow> string \<Rightarrow> error + string list" where
  "readDirectory fs dir =
     (case fs_ReadDir fs dir of
        Inl msg \<Rightarrow> Inl (OSError msg)
      | Inr names \<Rightarrow> Inr names)"

text \<open>
  The loop of \<open>guessFromDir\<close> over the matched names. The second call of
  \<open>GuessType\<close> works on the entity \<open>NewFromFile\<close> returned, and that entity, as the
  call leaves it, is the one appended.
\<close>

fun guessFromDir_loop :: "filesystem \<Rightarrow> string \<Rightarrow> string list \<Rightarrow> License list \<Rightarrow> License list" where
  "guessFromDir_loop fs dir [] licenses = licenses"
| "guessFromDir_loop fs dir (match # rest) licenses =
     guessFromDir_loop fs dir rest
       (case NewFromFile fs (fs_Join fs dir match) of
          Inl err \<Rightarrow> licenses
        | Inr l \<Rightarrow>
            (case GuessType l of
               (None, l') \<Rightarrow> licenses @ [l']
             | (Some err, l') \<Rightarrow> licenses))"

definition guessFromDir :: "filesystem \<Rightarrow> string \<Rightarrow> error + License list" where
  "guessFromDir fs dir =
     (case readDirectory fs dir of
        Inl err \<Rightarrow> Inl err
      | Inr files \<Rightarrow>
          (case complileLicensePatters DefaultLicenseFiles of
             Inl err \<Rightarrow> Inl err
           | Inr patterns \<Rightarrow>
               (case getLicenseFile patterns files of
                  Inl err \<Rightarrow> Inl err
                | Inr matchs \<Rightarrow>
                    (let licenses = guessFromDir_loop fs dir matchs []
                     in if length licenses = 0 then Inl ErrUnrecognizedLicense
                        else Inr licenses))))"

text \<open>\<open>ls[0]\<close> panics on an empty slice.\<close>

definition NewFromDir :: "filesystem \<Rightarrow> string \<Rightarrow> error + License" where
  "NewFromDir fs dir =
     (case guessFromDir fs dir of
        Inl err \<Rightarrow> Inl err
      | Inr ls \<Rightarrow> (case ls of [] \<Rightarrow> Inl PanicIndexOutOfRange | l # _ \<Rightarrow> Inr l))"

definition NewLicencesFromDir :: "filesystem \<Rightarrow> string \<Rightarrow> error + License list" where
  "NewLicencesFromDir fs dir = guessFromDir fs dir"

section \<open>The specification's view of classification\<close>

text \<open>
  The rule table of the specification, one row per conjunction of phrases: the two
  alternative phrases of Apache-2.0 are two consecutive rows with the same identifier,
  and the nested BSD decision is the row with both phrases followed by the row with the
  preamble alone. A row holds on a normalized text when the text contains every phrase
  of the row; classification takes the first row that holds.
\<close>

definition rule_table :: "(string list \<times> string) list" where
  "rule_table =
     [([''permission is hereby granted, free of charge, to any person obtaining a copy of this software''], LicenseMIT),
      ([''permission to use, copy, modify, and/or distribute this software for any''], LicenseISC),
      ([''apache license version 2.0, january 2004''], LicenseApache20),
      ([''http://www.apache.org/licenses/license-2.0''], LicenseApache20),
      ([''gnu general public license version 2, june 1991''], LicenseGPL20),
      ([''gnu general public license version 3, 29 june 2007''], LicenseGPL30),
      ([''gnu lesser general public license version 2.1, february 1999''], LicenseLGPL21),
      ([''gnu lesser general public license version 3, 29 june 2007''], LicenseLGPL30),
      ([''gnu affero general public license version 3, 19 november 2007''], LicenseAGPL30),
      ([''mozilla public license'', ''version 2.0''], LicenseMPL20),
      ([''redistribution and use in source and binary forms'', ''neither the name of''], LicenseBSD3Clause),
      ([''redistribution and use in source and binary forms''], LicenseBSD2Clause),
      ([''common development and distribution license (cddl) version 1.0''], LicenseCDDL10),
      ([''eclipse public license - v 1.0''], LicenseEPL10),
      ([''permission is granted to anyone to use this software for any purpose''], LicenseZlib),
      ([''this is free and unencumbered software released into the public domain''], LicenseUnlicense)]"

definition rule_holds :: "string \<Rightarrow> string list \<times> string \<Rightarrow> bool" where
  "rule_holds t r = list_all (Contains t) (fst r)"

definition classify :: "string \<Rightarrow> error + string" where
  "classify text =
     (case find (rule_holds (normalize_text text)) rule_table of
        None \<Rightarrow> Inl ErrUnrecognizedLicense
      | Some r \<Rightarrow> Inr (snd r))"

text \<open>What a classification result does to the entity it was computed for.\<close>

definition GuessType_result :: "License \<Rightarrow> error + string \<Rightarrow> error option \<times> License" where
  "GuessType_result l r = (case r of Inl e \<Rightarrow> (Some e, l) | Inr i \<Rightarrow> (None, l\<lparr>Type := i\<rparr>))"

text \<open>
  The cases of the \<open>switch\<close> in \<open>GuessType\<close> that stand before the BSD case, as
  one condition on the normalized text.
\<close>

definition before_BSD :: "string \<Rightarrow> bool" where
  "before_BSD t \<longleftrightarrow>
     scan t ''permission is hereby granted, free of charge, to any person obtaining a copy of this software'' \<or>
     scan t ''permission to use, copy, modify, and/or distribute this software for any'' \<or>
     (scan t ''apache license version 2.0, january 2004'' \<or>
      scan t ''http://www.apache.org/licenses/license-2.0'') \<or>
     scan t ''gnu general public license version 2, june 1991'' \<or>
     scan t ''gnu general public license version 3, 29 june 2007'' \<or>
     scan t ''gnu lesser general public license version 2.1, february 1999'' \<or>
     scan t ''gnu lesser general public license version 3, 29 june 2007'' \<or>
     scan t ''gnu affero general public license version 3, 19 november 2007'' \<or>
     (scan t ''mozilla public license'' \<and> scan t ''version 2.0'')"

section \<open>The specification's view of the directory scan\<close>

text \<open>A file name matches when one of the default patterns matches it.\<close>

definition default_match :: "string \<Rightarrow> bool" where
  "default_match file = list_ex (\<lambda>license. glob_MatchString license file) DefaultLicenseFiles"

text \<open>
  The entity a matched name contributes: none when the file cannot be read or its content
  is not classified, otherwise the identifier of the content, the content as read and the
  joined path.
\<close>

definition scanned_entity :: "filesystem \<Rightarrow> string \<Rightarrow> string \<Rightarrow> License option" where
  "scanned_entity fs dir name =
     (let path = fs_Join fs dir name
      in case fs_ReadFile fs path of
           Inl msg \<Rightarrow> None
         | Inr content \<Rightarrow>
             (case classify content of
                Inl err \<Rightarrow> None
              | Inr i \<Rightarrow> Some \<lparr>Type = i, Text = content, File = path\<rparr>))"

text \<open>
  A small file system for concrete runs: directories and files are given as tables, a
  path outside the tables fails to read, and the joined path puts a slash between
  directory and name.
\<close>

definition table_fs :: "(string \<times> string list) list \<Rightarrow> (string \<times> string) list \<Rightarrow> filesystem" where
  "table_fs dirs files =
     \<lparr>fs_ReadFile = (\<lambda>path. case map_of files path of
                               None \<Rightarrow> Inl ''no such file or directory''
                             | Some content \<Rightarrow> Inr content),
      fs_ReadDir = (\<lambda>dir. case map_of dirs dir of
                              None \<Rightarrow> Inl ''no such file or directory''
                            | Some names \<Rightarrow> Inr names),
      fs_Join = (\<lambda>dir name. dir @ ''/'' @ name)\<rparr>"

definition project_fs :: filesystem where
  "project_fs =
     table_fs
       [(''proj'', [''COPYING'', ''LICENSE'', ''LICENSE.txt'', ''README.md'', ''licenses'']),
        (''docs'', [''README.md'', ''index.md'']),
        (''bare'', [''License.md'', ''main.go''])]
       [(''proj/COPYING'', ''See http://www.apache.org/licenses/LICENSE-2.0''),
        (''proj/LICENSE'', ''Permission is granted to anyone to use this software for any purpose''),
        (''proj/LICENSE.txt'', ''hello world''),
        (''proj/README.md'', ''This is free and unencumbered software released into the public domain''),
        (''bare/License.md'', ''All rights reserved.'')]"

section \<open>Classification\<close>

lemmas license_ids =
  LicenseMIT_def LicenseISC_def LicenseBSD3Clause_def LicenseBSD2Clause_def
  LicenseApache20_def LicenseMPL20_def LicenseGPL20_def LicenseGPL30_def
  LicenseLGPL21_def LicenseLGPL30_def LicenseAGPL30_def LicenseCDDL10_def
  LicenseEPL10_def LicenseZlib_def LicenseUnlicense_def

lemma first_match_cascade:
  "(if Contains t p1 then (None, l\<lparr>Type := i1\<rparr>)
    else if Contains t p2 then (None, l\<lparr>Type := i2\<rparr>)
    else if Contains t p3 \<or> Contains t p4 then (None, l\<lparr>Type := i3\<rparr>)
    else if Contains t p5 then (None, l\<lparr>Type := i5\<rparr>)
    else if Contains t p6 then (None, l\<lparr>Type := i6\<rparr>)
    else if Contains t p7 then (None, l\<lparr>Type := i7\<rparr>)
    else if Contains t p8 then (None, l\<lparr>Type := i8\<rparr>)
    else if Contains t p9 then (None, l\<lparr>Type := i9\<rparr>)
    else if Contains t p10 \<and> Contains t p11 then (None, l\<lparr>Type := i10\<rparr>)
    else if Contains t p12
         then (if Contains t p13 then (None, l\<lparr>Type := i12\<rparr>) else (None, l\<lparr>Type := i13\<rparr>))
    else if Contains t p14 then (None, l\<lparr>Type := i14\<rparr>)
    else if Contains t p15 then (None, l\<lparr>Type := i15\<rparr>)
    else if Contains t p16 then (None, l\<lparr>Type := i16\<rparr>)
    else if Contains t p17 then (None, l\<lparr>Type := i17\<rparr>)
    else (Some e, l)) =
   GuessType_result l
    (case find (rule_holds t)
       [([p1], i1), ([p2], i2), ([p3], i3), ([p4], i3), ([p5], i5), ([p6], i6), ([p7], i7),
        ([p8], i8), ([p9], i9), ([p10, p11], i10), ([p12, p13], i12), ([p12], i13),
        ([p14], i14), ([p15], i15), ([p16], i16), ([p17], i17)] of
      None \<Rightarrow> Inl e
    | Some r \<Rightarrow> Inr (snd r))"
  by (simp add: rule_holds_def GuessType_result_def)

lemma GuessType_classify:
  "GuessType l = GuessType_result l (classify (Text l))"
  unfolding GuessType_def classify_def rule_table_def normalize_text_def Let_def scan_def
  by (rule first_match_cascade)

lemma bsd_cascade:
  assumes "\<not> (a1 \<or> a2 \<or> (a3 \<or> a4) \<or> a5 \<or> a6 \<or> a7 \<or> a8 \<or> a9 \<or> (a10 \<and> a11))" and "b"
  shows "(if a1 then x1 else if a2 then x2 else if a3 \<or> a4 then x3 else if a5 then x5
          else if a6 then x6 else if a7 then x7 else if a8 then x8 else if a9 then x9
          else if a10 \<and> a11 then x10
          else if b then (if c then (None, l\<lparr>Type := i\<rparr>) else (None, l\<lparr>Type := j\<rparr>))
          else y) = (None, l\<lparr>Type := if c then i else j\<rparr>)"
  using assms by auto

text \<open>
  Claim C2. When the normalized text contains the BSD preamble and none of the cases
  before the BSD case of the \<open>switch\<close> applies, \<open>GuessType\<close> succeeds and sets
  BSD-3-Clause if the normalized text also contains "neither the name of", and
  BSD-2-Clause otherwise.
\<close>

theorem GuessType_BSD:
  assumes "\<not> before_BSD (normalize_text (Text l))"
    and "scan (normalize_text (Text l)) ''redistribution and use in source and binary forms''"
  shows "GuessType l =
    (None, l\<lparr>Type := if scan (normalize_text (Text l)) ''neither the name of''
                       then LicenseBSD3Clause else LicenseBSD2Clause\<rparr>)"
  using assms unfolding GuessType_def before_BSD_def normalize_text_def Let_def
  by (rule bsd_cascade)

theorem GuessType_BSD_witness:
  "\<not> before_BSD (normalize_text (Text (New [] ''Redistribution and use in source and binary forms'')))
   \<and> scan (normalize_text (Text (New [] ''Redistribution and use in source and binary forms'')))
       ''redistribution and use in source and binary forms''
   \<and> GuessType (New [] ''Redistribution and use in source and binary forms'') =
      (None, (New [] ''Redistribution and use in source and binary forms'')\<lparr>Type := LicenseBSD2Clause\<rparr>)"
proof -
  let ?l = "New [] ''Redistribution and use in source and binary forms''"
  have h1: "\<not> before_BSD (normalize_text (Text ?l))" by code_simp
  have h2: "scan (normalize_text (Text ?l)) ''redistribution and use in source and binary forms''"
    by code_simp
  have h3: "\<not> scan (normalize_text (Text ?l)) ''neither the name of''" by code_simp
  have "GuessType ?l = (None, ?l\<lparr>Type := LicenseBSD2Clause\<rparr>)"
    using GuessType_BSD [OF h1 h2] h3 by (simp only: if_False)
  with h1 h2 show ?thesis by (intro conjI)
qed

lemma find_Some_mem: "find P xs = Some x \<Longrightarrow> x \<in> set xs \<and> P x"
  by (induction xs) (auto split: if_splits)

lemma classify_cases:
  "classify t = Inl ErrUnrecognizedLicense \<or> (\<exists>r \<in> set rule_table. classify t = Inr (snd r))"
proof (cases "find (rule_holds (normalize_text t)) rule_table")
  case None
  then show ?thesis by (simp add: classify_def)
next
  case (Some r)
  then have "r \<in> set rule_table" by (simp add: find_Some_mem)
  moreover from Some have "classify t = Inr (snd r)" by (simp add: classify_def)
  ultimately show ?thesis by blast
qed

lemma rule_table_ids: "map snd rule_table =
   [LicenseMIT, LicenseISC, LicenseApache20, LicenseApache20, LicenseGPL20, LicenseGPL30,
    LicenseLGPL21, LicenseLGPL30, LicenseAGPL30, LicenseMPL20, LicenseBSD3Clause,
    LicenseBSD2Clause, LicenseCDDL10, LicenseEPL10, LicenseZlib, LicenseUnlicense]"
  unfolding rule_table_def by (simp only: list.map snd_conv)

lemma rule_table_known: "r \<in> set rule_table \<Longrightarrow> snd r \<in> set KnownLicenses"
proof -
  assume "r \<in> set rule_table"
  then have "snd r \<in> set (map snd rule_table)" by simp
  then show ?thesis unfolding rule_table_ids KnownLicenses_def by auto
qed

lemma classify_known: "classify t = Inr i \<Longrightarrow> i \<in> set KnownLicenses"
  using classify_cases [of t] rule_table_known by auto

lemma Recognized_loop_iff: "Recognized_loop ks t \<longleftrightarrow> t \<in> set ks"
  by (induction ks) auto

lemma GuessType_success:
  "GuessType l = (None, l') \<longleftrightarrow> (\<exists>i. classify (Text l) = Inr i \<and> l' = l\<lparr>Type := i\<rparr>)"
  by (auto simp: GuessType_classify GuessType_result_def split: sum.splits)

lemma GuessType_failure:
  "GuessType l = (Some e, l') \<longleftrightarrow> (classify (Text l) = Inl e \<and> l' = l)"
  by (auto simp: GuessType_classify GuessType_result_def split: sum.splits)

lemma empty_not_known: "[] \<notin> set KnownLicenses"
  unfolding KnownLicenses_def license_ids by simp

text \<open>
  Claim C1. \<open>GuessType\<close> normalizes the text of the entity once and takes the first
  row of the rule table that holds on the normalized text, every row being a conjunction
  of literal containment tests: it assigns that row's identifier, and it fails with
  \<open>ErrUnrecognizedLicense\<close>, the entity untouched, when no row holds. The rows stand
  in the order MIT, ISC, Apache-2.0 (one row for each of its two phrases), GPL-2.0,
  GPL-3.0, LGPL-2.1, LGPL-3.0, AGPL-3.0, MPL-2.0, BSD-3-Clause, BSD-2-Clause, CDDL-1.0,
  EPL-1.0, zlib, Unlicense.
\<close>

theorem GuessType_first_rule:
  "GuessType l =
     (case find (rule_holds (normalize_text (Text l))) rule_table of
        None \<Rightarrow> (Some ErrUnrecognizedLicense, l)
      | Some r \<Rightarrow> (None, l\<lparr>Type := snd r\<rparr>))
   \<and> map snd rule_table =
     [LicenseMIT, LicenseISC, LicenseApache20, LicenseApache20, LicenseGPL20, LicenseGPL30,
      LicenseLGPL21, LicenseLGPL30, LicenseAGPL30, LicenseMPL20, LicenseBSD3Clause,
      LicenseBSD2Clause, LicenseCDDL10, LicenseEPL10, LicenseZlib, LicenseUnlicense]"
proof
  show "GuessType l =
     (case find (rule_holds (normalize_text (Text l))) rule_table of
        None \<Rightarrow> (Some ErrUnrecognizedLicense, l)
      | Some r \<Rightarrow> (None, l\<lparr>Type := snd r\<rparr>))"
    by (simp add: GuessType_classify GuessType_result_def classify_def split: option.splits)
next
  show "map snd rule_table =
     [LicenseMIT, LicenseISC, LicenseApache20, LicenseApache20, LicenseGPL20, LicenseGPL30,
      LicenseLGPL21, LicenseLGPL30, LicenseAGPL30, LicenseMPL20, LicenseBSD3Clause,
      LicenseBSD2Clause, LicenseCDDL10, LicenseEPL10, LicenseZlib, LicenseUnlicense]"
    by (rule rule_table_ids)
qed

text \<open>
  Claim C8. \<open>Recognized\<close> is membership of the entity's identifier in
  \<open>KnownLicenses\<close>; every identifier a successful \<open>GuessType\<close> assigns is in
  \<open>KnownLicenses\<close>, so the entity is recognized afterwards; an entity with the empty
  identifier, or with any identifier outside \<open>KnownLicenses\<close>, is not recognized.
\<close>

theorem Recognized_registry:
  "(Recognized l \<longleftrightarrow> Type l \<in> set KnownLicenses)
   \<and> (GuessType l = (None, l') \<longrightarrow> Type l' \<in> set KnownLicenses \<and> Recognized l')
   \<and> \<not> Recognized (l\<lparr>Type := []\<rparr>)
   \<and> (t \<notin> set KnownLicenses \<longrightarrow> \<not> Recognized (l\<lparr>Type := t\<rparr>))"
  using classify_known empty_not_known
  by (auto simp: Recognized_def Recognized_loop_iff GuessType_success)

theorem Recognized_registry_witness:
  "GuessType (New [] ''Permission to use, copy, modify, and/or distribute this software for any purpose'')
     = (None, New LicenseISC ''Permission to use, copy, modify, and/or distribute this software for any purpose'')
   \<and> Recognized (New LicenseISC ''Permission to use, copy, modify, and/or distribute this software for any purpose'')
   \<and> ''WTFPL'' \<notin> set KnownLicenses
   \<and> \<not> Recognized ((New [] ''Permission to use, copy, modify, and/or distribute this software for any purpose'')\<lparr>Type := ''WTFPL''\<rparr>)
   \<and> \<not> Recognized ((New [] ''Permission to use, copy, modify, and/or distribute this software for any purpose'')\<lparr>Type := []\<rparr>)"
proof -
  let ?t = "''Permission to use, copy, modify, and/or distribute this software for any purpose''"
  have g: "GuessType (New [] ?t) = (None, New LicenseISC ?t)" by code_simp
  have k: "''WTFPL'' \<notin> set KnownLicenses" by code_simp
  note r = Recognized_registry [of "New [] ?t" "New LicenseISC ?t" "''WTFPL''"]
  from r g have "Recognized (New LicenseISC ?t)" by blast
  moreover from r k have "\<not> Recognized ((New [] ?t)\<lparr>Type := ''WTFPL''\<rparr>)" by blast
  moreover from r have "\<not> Recognized ((New [] ?t)\<lparr>Type := []\<rparr>)" by blast
  ultimately show ?thesis using g k by blast
qed

text \<open>
  Claim C10. When \<open>GuessType\<close> returns an error, the error is
  \<open>ErrUnrecognizedLicense\<close> and the entity is left exactly as it was: identifier,
  text and file path are unchanged, so an identifier assigned before is not cleared.
\<close>

theorem GuessType_failure_atomic:
  "GuessType l = (Some e, l') \<Longrightarrow> e = ErrUnrecognizedLicense \<and> l' = l"
  using classify_cases [of "Text l"] by (auto simp: GuessType_failure)

theorem GuessType_failure_atomic_witness:
  "GuessType (New LicenseMIT ''hello world'') = (Some ErrUnrecognizedLicense, New LicenseMIT ''hello world'')
   \<and> ErrUnrecognizedLicense = ErrUnrecognizedLicense
   \<and> Type (New LicenseMIT ''hello world'') = ''MIT''"
proof -
  have g: "GuessType (New LicenseMIT ''hello world'') =
      (Some ErrUnrecognizedLicense, New LicenseMIT ''hello world'')" by code_simp
  have t: "Type (New LicenseMIT ''hello world'') = ''MIT''" by code_simp
  from GuessType_failure_atomic [OF g] g t show ?thesis by blast
qed

section \<open>Bytes and case\<close>

lemma of_char_lower_byte:
  "(of_char (lower_byte c) :: nat) =
     (if 65 \<le> (of_char c :: nat) \<and> (of_char c :: nat) \<le> 90 then of_char c + 32 else of_char c)"
  by (simp add: lower_byte_def Let_def)

lemma of_char_upper_byte:
  "(of_char (upper_byte c) :: nat) =
     (if 97 \<le> (of_char c :: nat) \<and> (of_char c :: nat) \<le> 122 then of_char c - 32 else of_char c)"
  by (auto simp add: upper_byte_def Let_def)

lemma char_eq_nat: "c = d \<longleftrightarrow> (of_char c :: nat) = of_char d"
  by simp

lemma lower_byte_idem: "lower_byte (lower_byte c) = lower_byte c"
  by (subst char_eq_nat) (simp add: of_char_lower_byte)

lemma lower_upper_byte: "lower_byte (upper_byte c) = lower_byte c"
  by (subst char_eq_nat) (auto simp add: of_char_lower_byte of_char_upper_byte)

lemma lower_byte_eq_LF: "lower_byte c = CHR 0x0A \<longleftrightarrow> c = CHR 0x0A"
  by (subst (1 2) char_eq_nat) (auto simp add: of_char_lower_byte)

lemma lower_byte_eq_CR: "lower_byte c = CHR 0x0D \<longleftrightarrow> c = CHR 0x0D"
  by (subst (1 2) char_eq_nat) (auto simp add: of_char_lower_byte)

lemma lower_byte_eq_SP: "lower_byte c = CHR '' '' \<longleftrightarrow> c = CHR '' ''"
  by (subst (1 2) char_eq_nat) (auto simp add: of_char_lower_byte)

lemma is_space_nat: "is_space c \<longleftrightarrow> (of_char c :: nat) \<in> {9, 10, 12, 13, 32}"
  unfolding is_space_def by (subst (1 2 3 4 5) char_eq_nat) simp

lemma is_space_lower_byte: "is_space (lower_byte c) = is_space c"
  by (auto simp add: is_space_nat of_char_lower_byte)

lemma ToLower_idem: "ToLower (ToLower s) = ToLower s"
  by (simp add: ToLower_def lower_byte_idem)

lemma ToLower_ToUpper: "ToLower (ToUpper s) = ToLower s"
  by (simp add: ToLower_def ToUpper_def lower_upper_byte)

section \<open>File-name patterns and the file locator\<close>

lemma glob_star: "glob_MatchString ''*'' name"
  by (induction name) auto

lemma glob_ToLower: "glob_MatchString p (ToLower name) = glob_MatchString p name"
  by (induction p name rule: glob_MatchString.induct)
     (auto simp: ToLower_def lower_byte_idem lower_byte_eq_LF)

lemma glob_case_insensitive:
  "ToLower name = ToLower name' \<Longrightarrow> glob_MatchString p name = glob_MatchString p name'"
  by (metis glob_ToLower)

lemma glob_literal:
  "CHR ''*'' \<notin> set p \<Longrightarrow>
   glob_MatchString p name \<longleftrightarrow>
     length p \<le> length name \<and> ToLower (take (length p) name) = ToLower p"
proof (induction p arbitrary: name)
  case Nil
  then show ?case by (simp add: ToLower_def)
next
  case (Cons a p)
  then show ?case by (cases name) (auto simp: ToLower_def)
qed

lemma glob_literal_star:
  "CHR ''*'' \<notin> set p \<Longrightarrow>
   glob_MatchString (p @ ''*'') name \<longleftrightarrow>
     length p \<le> length name \<and> ToLower (take (length p) name) = ToLower p"
proof (induction p arbitrary: name)
  case Nil
  then show ?case by (simp add: ToLower_def glob_star)
next
  case (Cons a p)
  then show ?case by (cases name) (auto simp: ToLower_def)
qed

lemma matchLicenseFile_inner_eq:
  "matchLicenseFile_inner patterns name out =
     out @ replicate (length (filter (\<lambda>pattern. pattern name) patterns)) name"
  by (induction patterns arbitrary: out) (simp_all add: replicate_app_Cons_same)

lemma matchLicenseFile_outer_eq:
  "matchLicenseFile_outer patterns files out =
     out @ concat (map (\<lambda>name. replicate (length (filter (\<lambda>pattern. pattern name) patterns)) name) files)"
  by (induction files arbitrary: out) (simp_all add: matchLicenseFile_inner_eq)

lemma matchLicenseFile_eq:
  "matchLicenseFile patterns files =
     concat (map (\<lambda>name. replicate (length (filter (\<lambda>pattern. pattern name) patterns)) name) files)"
  by (simp add: matchLicenseFile_def matchLicenseFile_outer_eq)


lemma set_concat_replicate:
  fixes xs :: "'a list" and ps :: "('a \<Rightarrow> bool) list"
  shows "set (concat (map (\<lambda>x. replicate (length (filter (\<lambda>p. p x) ps)) x) xs)) =
     {x \<in> set xs. \<exists>p \<in> set ps. p x}"
  by (induction xs) (auto simp: filter_empty_conv)

lemma set_matchLicenseFile:
  "set (matchLicenseFile patterns files) =
     {name \<in> set files. \<exists>pattern \<in> set patterns. pattern name}"
  unfolding matchLicenseFile_eq by (rule set_concat_replicate)

lemma getLicenseFile_eq:
  "getLicenseFile patterns files =
     (if matchLicenseFile patterns files = [] then Inl ErrNoLicenseFile
      else Inr (matchLicenseFile patterns files))"
  by (simp add: getLicenseFile_def Let_def)

lemma complileLicensePatters_loop_eq:
  "complileLicensePatters_loop licenses patterns = patterns @ map glob_MatchString licenses"
  by (induction licenses arbitrary: patterns) auto

lemma complileLicensePatters_eq:
  "complileLicensePatters licenses = Inr (map glob_MatchString licenses)"
  by (simp add: complileLicensePatters_def complileLicensePatters_loop_eq)



end
